theory Spec2Isabelle
  imports Main
begin

section \<open>ElementsFactory: the application controller of \<^verbatim>\<open>src/app.js\<close>\<close>

text \<open>
  The class \<^verbatim>\<open>PeriodicTableApp\<close> loads a configuration and a list of elements through
  the collaborator \<^verbatim>\<open>parser\<close>, draws them through the collaborator \<^verbatim>\<open>renderer\<close> and
  writes the markup into the page. Neither collaborator is part of the file, so each is a
  parameter of the model: what the two promises of \<^verbatim>\<open>parser\<close> settle to is an argument of
  \<open>loadData\<close>, \<^verbatim>\<open>renderer.generate\<close> is a function argument \<open>gen\<close>, and every call
  to a collaborator is appended to a list of calls, in program order.
\<close>

subsection \<open>Data\<close>

text \<open>
  The four fields of the object. \<^verbatim>\<open>null\<close> is \<open>None\<close>. An array and an object are truthy
  in JavaScript whatever they hold (the empty array too), so \<^verbatim>\<open>!this.elements\<close> is
  \<open>elements = None\<close>.
\<close>

record ('e, 'c) PeriodicTableApp =
  elements :: "'e list option"
  config :: "'c option"
  currentTheme :: string
  currentLayout :: string

text \<open>A call to a collaborator, with its arguments.\<close>

datatype ('e, 'c) call =
    LoadConfig
  | LoadElements
  | Generate "'e list" 'c string string
  | DownloadSVG string

text \<open>
  The reason of a rejected promise, the \<^verbatim>\<open>error\<close> of the \<^verbatim>\<open>catch\<close> block of
  \<^verbatim>\<open>init\<close>. \<open>Nullish\<close> is \<^verbatim>\<open>undefined\<close> or \<^verbatim>\<open>null\<close>, where reading
  \<^verbatim>\<open>error.message\<close> throws a \<^verbatim>\<open>TypeError\<close>. \<open>Reason m\<close> is any other value, \<open>m\<close>
  its \<^verbatim>\<open>message\<close> property: \<open>None\<close> when it has none, the string otherwise.
\<close>

datatype reason = Nullish | Reason "string option"

datatype js_error = TypeError

text \<open>
  A line written to the console, with the values interpolated into it.
  \<open>Error_init\<close> and \<open>Error_no_container\<close> are the two \<^verbatim>\<open>console.error\<close> lines.
\<close>

datatype console_entry =
    Log_initializing
  | Log_ready
  | Log_loading
  | Log_loaded nat
  | Log_rendering string string
  | Log_exported string
  | Error_init reason
  | Error_no_container

text \<open>What a promise of \<^verbatim>\<open>parser\<close> settles to: a value, or a rejection with its reason.\<close>

datatype 'a settled = Resolved 'a | Rejected reason

text \<open>
  The object together with the page it runs in: \<open>container\<close> is the \<^verbatim>\<open>innerHTML\<close> of
  \<^verbatim>\<open>#table-container\<close>, \<open>None\<close> when the page has no such node; the three booleans say
  whether \<^verbatim>\<open>#theme-select\<close>, \<^verbatim>\<open>#size-select\<close> and \<^verbatim>\<open>#export-svg\<close> exist; the four
  counters are the listeners registered so far (\<^verbatim>\<open>addEventListener\<close> with a fresh
  closure adds a listener at every call). \<open>uncaught\<close> holds the errors thrown out of
  \<^verbatim>\<open>init\<close>: its promise is rejected with them, and nothing in the script handles that
  rejection.
\<close>

record ('e, 'c) world =
  app :: "('e, 'c) PeriodicTableApp"
  container :: "string option"
  themeSelect :: bool
  sizeSelect :: bool
  exportBtn :: bool
  themeListeners :: nat
  sizeListeners :: nat
  exportListeners :: nat
  clickListeners :: nat
  calls :: "('e, 'c) call list"
  console :: "console_entry list"
  uncaught :: "js_error list"

definition console_log :: "console_entry \<Rightarrow> ('e, 'c) world \<Rightarrow> ('e, 'c) world" where
  "console_log l w = w\<lparr>console := console w @ [l]\<rparr>"

definition invoke :: "('e, 'c) call \<Rightarrow> ('e, 'c) world \<Rightarrow> ('e, 'c) world" where
  "invoke c w = w\<lparr>calls := calls w @ [c]\<rparr>"

subsection \<open>The constructor\<close>

definition constructor :: "('e, 'c) PeriodicTableApp" where
  "constructor =
     \<lparr>elements = None, config = None, currentTheme = ''light'', currentLayout = ''normal''\<rparr>"

subsection \<open>showError\<close>

definition newline :: char where
  "newline = CHR 0x0A"

definition dquote :: char where
  "dquote = CHR 0x22"

text \<open>The template literal of \<^verbatim>\<open>showError\<close>, with its line breaks and indentation.\<close>

definition error_markup :: "string \<Rightarrow> string" where
  "error_markup message =
     [newline] @ ''      <div class='' @ [dquote] @ ''error-message'' @ [dquote] @ ''>''
     @ [newline] @ ''        <strong>Error:</strong> '' @ message
     @ [newline] @ ''      </div>''
     @ [newline] @ ''    ''"

definition showError :: "string \<Rightarrow> ('e, 'c) world \<Rightarrow> ('e, 'c) world" where
  "showError message w =
     (case container w of
        None \<Rightarrow> w
      | Some _ \<Rightarrow> w\<lparr>container := Some (error_markup message)\<rparr>)"

subsection \<open>render\<close>

text \<open>
  \<open>gen\<close> is \<^verbatim>\<open>renderer.generate\<close>. The guard \<^verbatim>\<open>!this.elements || !this.config\<close> is the
  catch-all case: one of the two fields is \<open>None\<close>.
\<close>

definition render ::
  "('e list \<Rightarrow> 'c \<Rightarrow> string \<Rightarrow> string \<Rightarrow> string) \<Rightarrow> ('e, 'c) world \<Rightarrow> ('e, 'c) world" where
  "render gen w =
     (case (elements (app w), config (app w)) of
        (Some es, Some c) \<Rightarrow>
          (let theme = currentTheme (app w);
               layout = currentLayout (app w);
               w1 = console_log (Log_rendering theme layout) w;
               svg = gen es c theme layout;
               w2 = invoke (Generate es c theme layout) w1
           in case container w2 of
                None \<Rightarrow> console_log Error_no_container w2
              | Some _ \<Rightarrow> w2\<lparr>container := Some svg\<rparr>)
      | _ \<Rightarrow> showError ''No data loaded'' w)"

subsection \<open>exportSVG\<close>

definition export_filename :: "string \<Rightarrow> string \<Rightarrow> string" where
  "export_filename theme layout = ''elementsfactory-'' @ theme @ ''-'' @ layout @ ''.svg''"

definition exportSVG :: "('e, 'c) world \<Rightarrow> ('e, 'c) world" where
  "exportSVG w =
     (let filename = export_filename (currentTheme (app w)) (currentLayout (app w))
      in console_log (Log_exported filename) (invoke (DownloadSVG filename) w))"

subsection \<open>The event listeners\<close>

text \<open>
  The bodies of the two \<^verbatim>\<open>change\<close> listeners of \<^verbatim>\<open>setupEventListeners\<close>; the argument
  is \<^verbatim>\<open>e.target.value\<close>. They are what the specification calls \<^verbatim>\<open>setTheme\<close> and
  \<^verbatim>\<open>setLayout\<close>.
\<close>

definition setTheme ::
  "('e list \<Rightarrow> 'c \<Rightarrow> string \<Rightarrow> string \<Rightarrow> string) \<Rightarrow> string \<Rightarrow> ('e, 'c) world \<Rightarrow> ('e, 'c) world" where
  "setTheme gen v w = render gen (w\<lparr>app := (app w)\<lparr>currentTheme := v\<rparr>\<rparr>)"

definition setLayout ::
  "('e list \<Rightarrow> 'c \<Rightarrow> string \<Rightarrow> string \<Rightarrow> string) \<Rightarrow> string \<Rightarrow> ('e, 'c) world \<Rightarrow> ('e, 'c) world" where
  "setLayout gen v w = render gen (w\<lparr>app := (app w)\<lparr>currentLayout := v\<rparr>\<rparr>)"

text \<open>
  \<^verbatim>\<open>setupElementInteractivity\<close> adds one \<^verbatim>\<open>click\<close> listener to the document; the
  listener only writes to the console.
\<close>

definition setupElementInteractivity :: "('e, 'c) world \<Rightarrow> ('e, 'c) world" where
  "setupElementInteractivity w = w\<lparr>clickListeners := Suc (clickListeners w)\<rparr>"

definition setupEventListeners :: "('e, 'c) world \<Rightarrow> ('e, 'c) world" where
  "setupEventListeners w =
     (let w1 = (if themeSelect w then w\<lparr>themeListeners := Suc (themeListeners w)\<rparr> else w);
          w2 = (if sizeSelect w1 then w1\<lparr>sizeListeners := Suc (sizeListeners w1)\<rparr> else w1);
          w3 = (if exportBtn w2 then w2\<lparr>exportListeners := Suc (exportListeners w2)\<rparr> else w2)
      in setupElementInteractivity w3)"

subsection \<open>loadData and init\<close>

text \<open>
  \<open>rc\<close> and \<open>re\<close> are what \<^verbatim>\<open>parser.loadConfig()\<close> and \<^verbatim>\<open>parser.loadElements()\<close>
  settle to. A rejection leaves \<^verbatim>\<open>loadData\<close> at the \<^verbatim>\<open>await\<close>: the result is \<open>Inl\<close>
  the reason's message, and the statements after the \<^verbatim>\<open>await\<close> have not run.
\<close>

definition loadData ::
  "'c settled \<Rightarrow> 'e list settled \<Rightarrow> ('e, 'c) world \<Rightarrow> (reason + unit) \<times> ('e, 'c) world" where
  "loadData rc re w =
     (let w1 = invoke LoadConfig (console_log Log_loading w)
      in case rc of
           Rejected err \<Rightarrow> (Inl err, w1)
         | Resolved c \<Rightarrow>
             (let w2 = invoke LoadElements (w1\<lparr>app := (app w1)\<lparr>config := Some c\<rparr>\<rparr>)
              in case re of
                   Rejected err \<Rightarrow> (Inl err, w2)
                 | Resolved es \<Rightarrow>
                     (Inr (),
                      console_log (Log_loaded (length es))
                        (w2\<lparr>app := (app w2)\<lparr>elements := Some es\<rparr>\<rparr>))))"

text \<open>
  \<^verbatim>\<open>error.message || 'Initialization failed'\<close>, the argument being the \<^verbatim>\<open>message\<close>
  property of a reason that is not nullish: a missing message and an empty one are falsy.
\<close>

definition message_or_default :: "string option \<Rightarrow> string" where
  "message_or_default message =
     (case message of
        None \<Rightarrow> ''Initialization failed''
      | Some m \<Rightarrow> (if m = [] then ''Initialization failed'' else m))"

text \<open>
  The \<^verbatim>\<open>catch\<close> block of \<^verbatim>\<open>init\<close>: \<^verbatim>\<open>console.error\<close> first, then
  \<^verbatim>\<open>error.message\<close> is read. With a nullish reason the read throws, \<^verbatim>\<open>showError\<close> is
  not reached and the error leaves \<^verbatim>\<open>init\<close>.
\<close>

definition init_catch :: "reason \<Rightarrow> ('e, 'c) world \<Rightarrow> ('e, 'c) world" where
  "init_catch err w =
     (let w1 = console_log (Error_init err) w
      in case err of
           Nullish \<Rightarrow> w1\<lparr>uncaught := uncaught w1 @ [TypeError]\<rparr>
         | Reason message \<Rightarrow> showError (message_or_default message) w1)"

definition init ::
  "('e list \<Rightarrow> 'c \<Rightarrow> string \<Rightarrow> string \<Rightarrow> string) \<Rightarrow> 'c settled \<Rightarrow> 'e list settled \<Rightarrow>
   ('e, 'c) world \<Rightarrow> ('e, 'c) world" where
  "init gen rc re w =
     (case loadData rc re (console_log Log_initializing w) of
        (Inl err, w1) \<Rightarrow> init_catch err w1
      | (Inr _, w1) \<Rightarrow> console_log Log_ready (render gen (setupEventListeners w1)))"

subsection \<open>init, cut at its await points\<close>

text \<open>
  \<^verbatim>\<open>init\<close> is an \<^verbatim>\<open>async\<close> function: it runs up to the first \<^verbatim>\<open>await\<close> and returns,
  and each later part runs when the awaited promise settles. Other code, a second call of
  \<^verbatim>\<open>init\<close> among it, can run between the parts. The three parts are: \<open>init_begin\<close>,
  up to the call of \<^verbatim>\<open>parser.loadConfig()\<close>; \<open>init_config_settled\<close>, from there to the
  call of \<^verbatim>\<open>parser.loadElements()\<close>; \<open>init_elements_settled\<close>, the rest (the end
  of \<^verbatim>\<open>loadData\<close> and, one microtask later, the end of \<^verbatim>\<open>init\<close>). A rejection
  enters the \<^verbatim>\<open>catch\<close> block.
\<close>

definition init_begin :: "('e, 'c) world \<Rightarrow> ('e, 'c) world" where
  "init_begin w = invoke LoadConfig (console_log Log_loading (console_log Log_initializing w))"

definition init_config_settled :: "'c settled \<Rightarrow> ('e, 'c) world \<Rightarrow> ('e, 'c) world" where
  "init_config_settled rc w =
     (case rc of
        Rejected err \<Rightarrow> init_catch err w
      | Resolved c \<Rightarrow> invoke LoadElements (w\<lparr>app := (app w)\<lparr>config := Some c\<rparr>\<rparr>))"

definition init_elements_settled ::
  "('e list \<Rightarrow> 'c \<Rightarrow> string \<Rightarrow> string \<Rightarrow> string) \<Rightarrow> 'e list settled \<Rightarrow>
   ('e, 'c) world \<Rightarrow> ('e, 'c) world" where
  "init_elements_settled gen re w =
     (case re of
        Rejected err \<Rightarrow> init_catch err w
      | Resolved es \<Rightarrow>
          console_log Log_ready
            (render gen
              (setupEventListeners
                (console_log (Log_loaded (length es))
                  (w\<lparr>app := (app w)\<lparr>elements := Some es\<rparr>\<rparr>)))))"

subsection \<open>A page and a generator to run the model on\<close>

text \<open>
  The page as the script finds it: the object fresh from its constructor, all four nodes
  present, the container empty, nothing registered, called or logged.
\<close>

definition page_load :: "(nat, unit) world" where
  "page_load =
     \<lparr>app = constructor, container = Some [], themeSelect = True, sizeSelect = True,
      exportBtn = True, themeListeners = 0, sizeListeners = 0, exportListeners = 0,
      clickListeners = 0, calls = [], console = [], uncaught = []\<rparr>"

text \<open>The same page without the node \<^verbatim>\<open>#table-container\<close>.\<close>

definition page_without_container :: "(nat, unit) world" where
  "page_without_container = page_load\<lparr>container := None\<rparr>"

text \<open>A stand-in for \<^verbatim>\<open>renderer.generate\<close> on concrete inputs: it names theme and layout.\<close>

definition sample_generate :: "nat list \<Rightarrow> unit \<Rightarrow> string \<Rightarrow> string \<Rightarrow> string" where
  "sample_generate es c theme layout = ''<svg class='' @ theme @ '' '' @ layout @ ''></svg>''"

text \<open>The page after a load of three elements, and after the layout is then set to compact.\<close>

definition loaded_page :: "(nat, unit) world" where
  "loaded_page = init sample_generate (Resolved ()) (Resolved [1, 2, 3]) page_load"

definition compact_page :: "(nat, unit) world" where
  "compact_page = setLayout sample_generate ''compact'' loaded_page"

subsection \<open>The calls of renderer.generate among the calls made\<close>

fun is_Generate :: "('e, 'c) call \<Rightarrow> bool" where
  "is_Generate (Generate es c theme layout) = True"
| "is_Generate _ = False"

definition generate_calls :: "('e, 'c) world \<Rightarrow> ('e, 'c) call list" where
  "generate_calls w = filter is_Generate (calls w)"

section \<open>Basic facts\<close>

lemma console_log_simps:
  "app (console_log l w) = app w"
  "container (console_log l w) = container w"
  "calls (console_log l w) = calls w"
  "console (console_log l w) = console w @ [l]"
  by (simp_all add: console_log_def)

lemma invoke_simps:
  "app (invoke c w) = app w"
  "container (invoke c w) = container w"
  "calls (invoke c w) = calls w @ [c]"
  "console (invoke c w) = console w"
  by (simp_all add: invoke_def)

lemma showError_simps:
  "app (showError m w) = app w"
  "calls (showError m w) = calls w"
  "console (showError m w) = console w"
  "container (showError m w) = map_option (\<lambda>_. error_markup m) (container w)"
  by (simp_all add: showError_def split: option.splits)

lemma exportSVG_simps:
  "app (exportSVG w) = app w"
  "container (exportSVG w) = container w"
  "calls (exportSVG w) =
     calls w @ [DownloadSVG (export_filename (currentTheme (app w)) (currentLayout (app w)))]"
  by (simp_all add: exportSVG_def Let_def console_log_simps invoke_simps)

lemma setupEventListeners_simps:
  "app (setupEventListeners w) = app w"
  "container (setupEventListeners w) = container w"
  "calls (setupEventListeners w) = calls w"
  by (simp_all add: setupEventListeners_def setupElementInteractivity_def Let_def)

subsection \<open>render, by the two cases of its guard\<close>

lemma render_absent:
  "elements (app w) = None \<or> config (app w) = None \<Longrightarrow>
   render gen w = showError ''No data loaded'' w"
  by (auto simp: render_def split: option.splits)

lemma render_loaded:
  assumes "elements (app w) = Some es" "config (app w) = Some c"
  shows "calls (render gen w) =
           calls w @ [Generate es c (currentTheme (app w)) (currentLayout (app w))]"
    and "container (render gen w) =
           map_option (\<lambda>_. gen es c (currentTheme (app w)) (currentLayout (app w))) (container w)"
  using assms
  by (simp_all add: render_def Let_def console_log_def invoke_def split: option.splits)

lemma render_app: "app (render gen w) = app w"
  by (simp add: render_def Let_def console_log_def invoke_def showError_simps
      split: option.splits)

subsection \<open>init, by what the two promises settle to\<close>

text \<open>Run without anything in between, the three parts of \<open>init\<close> are \<open>init\<close>.\<close>

lemma init_steps:
  "init gen rc re w =
     (case rc of
        Rejected err \<Rightarrow> init_config_settled rc (init_begin w)
      | Resolved c \<Rightarrow> init_elements_settled gen re (init_config_settled rc (init_begin w)))"
  by (simp add: init_def loadData_def init_begin_def init_config_settled_def
      init_elements_settled_def Let_def split: settled.splits)

lemma init_begin_simps:
  "app (init_begin w) = app w"
  "container (init_begin w) = container w"
  "calls (init_begin w) = calls w @ [LoadConfig]"
  by (simp_all add: init_begin_def console_log_simps invoke_simps)

lemma init_catch_simps:
  "app (init_catch err w) = app w"
  "calls (init_catch err w) = calls w"
  by (simp_all add: init_catch_def Let_def showError_simps console_log_simps
      split: reason.splits)

lemma init_catch_Reason:
  "container (init_catch (Reason m) w) =
     map_option (\<lambda>_. error_markup (message_or_default m)) (container w)"
  "uncaught (init_catch (Reason m) w) = uncaught w"
  by (simp_all add: init_catch_def Let_def showError_def console_log_def split: option.splits)

text \<open>A nullish reason: nothing is shown, and the \<^verbatim>\<open>TypeError\<close> leaves \<^verbatim>\<open>init\<close>.\<close>

lemma init_catch_Nullish:
  "container (init_catch Nullish w) = container w"
  "console (init_catch Nullish w) = console w @ [Error_init Nullish]"
  "uncaught (init_catch Nullish w) = uncaught w @ [TypeError]"
  by (simp_all add: init_catch_def Let_def console_log_def)

lemma init_config_rejected:
  "app (init gen (Rejected err) re w) = app w"
  "calls (init gen (Rejected err) re w) = calls w @ [LoadConfig]"
  "container (init gen (Rejected (Reason m)) re w) =
     map_option (\<lambda>_. error_markup (message_or_default m)) (container w)"
  by (simp_all add: init_steps init_config_settled_def init_catch_simps init_catch_Reason
      init_begin_simps)

lemma init_elements_rejected:
  "app (init gen (Resolved c) (Rejected err) w) = (app w)\<lparr>config := Some c\<rparr>"
  "calls (init gen (Resolved c) (Rejected err) w) = calls w @ [LoadConfig, LoadElements]"
  "container (init gen (Resolved c) (Rejected (Reason m)) w) =
     map_option (\<lambda>_. error_markup (message_or_default m)) (container w)"
  by (simp_all add: init_steps init_config_settled_def init_elements_settled_def
      init_catch_simps init_catch_Reason init_begin_simps invoke_simps)

lemma init_resolved:
  "app (init gen (Resolved c) (Resolved es) w) =
     (app w)\<lparr>config := Some c, elements := Some es\<rparr>"
  "calls (init gen (Resolved c) (Resolved es) w) =
     calls w @ [LoadConfig, LoadElements,
                Generate es c (currentTheme (app w)) (currentLayout (app w))]"
  "container (init gen (Resolved c) (Resolved es) w) =
     map_option (\<lambda>_. gen es c (currentTheme (app w)) (currentLayout (app w))) (container w)"
proof -
  let ?w1 = "init_config_settled (Resolved c) (init_begin w)"
  let ?w2 = "setupEventListeners
              (console_log (Log_loaded (length es))
                (?w1\<lparr>app := (app ?w1)\<lparr>elements := Some es\<rparr>\<rparr>))"
  have w1: "app ?w1 = (app w)\<lparr>config := Some c\<rparr>"
    "calls ?w1 = calls w @ [LoadConfig, LoadElements]"
    "container ?w1 = container w"
    by (simp_all add: init_config_settled_def init_begin_simps invoke_simps)
  have w2: "app ?w2 = (app w)\<lparr>config := Some c, elements := Some es\<rparr>"
    "calls ?w2 = calls w @ [LoadConfig, LoadElements]" "container ?w2 = container w"
    by (simp_all add: setupEventListeners_simps console_log_simps w1)
  have e: "elements (app ?w2) = Some es" "config (app ?w2) = Some c"
    by (simp_all add: w2)
  have i: "init gen (Resolved c) (Resolved es) w = console_log Log_ready (render gen ?w2)"
    by (simp add: init_steps init_elements_settled_def)
  show "app (init gen (Resolved c) (Resolved es) w) =
     (app w)\<lparr>config := Some c, elements := Some es\<rparr>"
    by (simp add: i console_log_simps render_app w2)
  show "calls (init gen (Resolved c) (Resolved es) w) =
     calls w @ [LoadConfig, LoadElements,
                Generate es c (currentTheme (app w)) (currentLayout (app w))]"
    by (simp add: i console_log_simps render_loaded [OF e] w2)
  show "container (init gen (Resolved c) (Resolved es) w) =
     map_option (\<lambda>_. gen es c (currentTheme (app w)) (currentLayout (app w))) (container w)"
    by (simp add: i console_log_simps render_loaded [OF e] w2)
qed

lemma loadData_generate_calls:
  "generate_calls (snd (loadData rc re w)) = generate_calls w"
  by (simp add: loadData_def Let_def generate_calls_def console_log_simps invoke_simps
      split: settled.splits)

subsection \<open>The two sample pages\<close>

lemma loaded_page_simps:
  "app loaded_page =
     \<lparr>elements = Some [1, 2, 3], config = Some (), currentTheme = ''light'',
      currentLayout = ''normal''\<rparr>"
  "calls loaded_page = [LoadConfig, LoadElements, Generate [1, 2, 3] () ''light'' ''normal'']"
  "container loaded_page = Some (sample_generate [1, 2, 3] () ''light'' ''normal'')"
  by (simp_all add: loaded_page_def init_resolved page_load_def constructor_def)

lemma compact_page_simps:
  "app compact_page =
     \<lparr>elements = Some [1, 2, 3], config = Some (), currentTheme = ''light'',
      currentLayout = ''compact''\<rparr>"
  by (simp add: compact_page_def setLayout_def render_app loaded_page_simps)

section \<open>The claims\<close>

subsection \<open>C1: render without data\<close>

text \<open>
  C1, as stated, fails: not every state without data yields a reported error. On a page
  that has no \<^verbatim>\<open>#table-container\<close>, \<^verbatim>\<open>showError\<close> returns at its guard, and
  \<^verbatim>\<open>render()\<close> leaves the whole page as it was: nothing is shown and nothing is logged.
\<close>

theorem render_no_container_counterexample:
  "elements (app page_without_container) = None
   \<and> config (app page_without_container) = None
   \<and> render sample_generate page_without_container = page_without_container
   \<and> container (render sample_generate page_without_container) = None
   \<and> console (render sample_generate page_without_container) = []"
proof -
  have h: "elements (app page_without_container) = None
      \<or> config (app page_without_container) = None"
    by (simp add: page_without_container_def page_load_def constructor_def)
  have "render sample_generate page_without_container =
      showError ''No data loaded'' page_without_container"
    by (rule render_absent [OF h])
  also have "\<dots> = page_without_container"
    by (simp add: showError_def page_without_container_def)
  finally have r: "render sample_generate page_without_container = page_without_container" .
  show ?thesis
    by (simp add: r) (simp add: page_without_container_def page_load_def constructor_def)
qed

text \<open>
  C1, amended. In every state in which the elements or the configuration are absent,
  \<^verbatim>\<open>render()\<close> does not call \<^verbatim>\<open>renderer.generate\<close>, throws nothing and leaves the
  object as it was. When the page has the node \<^verbatim>\<open>#table-container\<close>, the error is
  reported there: its content becomes the error markup with the message
  \<^verbatim>\<open>No data loaded\<close>. When the page has no such node, \<^verbatim>\<open>render()\<close> changes nothing.
\<close>

theorem render_without_data:
  assumes "elements (app w) = None \<or> config (app w) = None"
  shows "render gen w =
      (case container w of
         None \<Rightarrow> w
       | Some _ \<Rightarrow>
           w\<lparr>container := Some
             ([CHR 0x0A] @ ''      <div class='' @ [CHR 0x22] @ ''error-message'' @ [CHR 0x22]
              @ ''>'' @ [CHR 0x0A] @ ''        <strong>Error:</strong> No data loaded''
              @ [CHR 0x0A] @ ''      </div>'' @ [CHR 0x0A] @ ''    '')\<rparr>)
    \<and> calls (render gen w) = calls w
    \<and> app (render gen w) = app w"
    (is "?shown \<and> ?no_call \<and> ?same_app")
proof -
  have r: "render gen w = showError ''No data loaded'' w"
    by (rule render_absent [OF assms])
  have shown: ?shown
    unfolding r
    by (simp add: showError_def error_markup_def newline_def dquote_def split: option.splits)
  have no_call: ?no_call
    by (simp add: r showError_simps)
  have same_app: ?same_app
    by (simp add: r showError_simps)
  show ?thesis
    using shown no_call same_app by (intro conjI)
qed

text \<open>
  C1, amended, on the fresh page: nothing is loaded, no call is made, and the container
  shows the error.
\<close>

theorem render_without_data_witness:
  "(elements (app page_load) = None \<or> config (app page_load) = None)
   \<and> calls (render sample_generate page_load) = []
   \<and> container (render sample_generate page_load) =
       Some ([CHR 0x0A] @ ''      <div class='' @ [CHR 0x22] @ ''error-message'' @ [CHR 0x22]
             @ ''>'' @ [CHR 0x0A] @ ''        <strong>Error:</strong> No data loaded''
             @ [CHR 0x0A] @ ''      </div>'' @ [CHR 0x0A] @ ''    '')"
proof -
  have h: "elements (app page_load) = None \<or> config (app page_load) = None"
    by (simp add: page_load_def constructor_def)
  have p: "calls page_load = []" "container page_load = Some []"
    by (simp_all add: page_load_def)
  show ?thesis
    using h render_without_data [OF h, of sample_generate] by (simp add: p)
qed

subsection \<open>C2: render with data\<close>

text \<open>
  C2. With elements and configuration loaded, \<^verbatim>\<open>render()\<close> calls \<^verbatim>\<open>renderer.generate\<close>
  exactly once, with the stored elements, configuration, theme and layout, and the container
  receives what it returns. After \<^verbatim>\<open>setTheme(t)\<close>, a \<^verbatim>\<open>render()\<close> generates with exactly
  \<open>t\<close> and the layout set before (the second of the two calls; the first is the one
  \<^verbatim>\<open>setTheme\<close> made itself). No other method calls \<^verbatim>\<open>renderer.generate\<close>:
  \<^verbatim>\<open>exportSVG\<close>, \<^verbatim>\<open>showError\<close>, \<^verbatim>\<open>setupEventListeners\<close> and \<^verbatim>\<open>loadData\<close> leave the
  list of its calls as it was.
\<close>

theorem render_generates_once:
  assumes "elements (app w) = Some es" and "config (app w) = Some c"
  shows "calls (render gen w) =
           calls w @ [Generate es c (currentTheme (app w)) (currentLayout (app w))]
    \<and> container (render gen w) =
           map_option (\<lambda>_. gen es c (currentTheme (app w)) (currentLayout (app w))) (container w)
    \<and> calls (render gen (setTheme gen t w)) =
           calls w @ [Generate es c t (currentLayout (app w)),
                      Generate es c t (currentLayout (app w))]
    \<and> container (render gen (setTheme gen t w)) =
           map_option (\<lambda>_. gen es c t (currentLayout (app w))) (container w)
    \<and> generate_calls (exportSVG w) = generate_calls w
    \<and> generate_calls (showError m w) = generate_calls w
    \<and> generate_calls (setupEventListeners w) = generate_calls w
    \<and> generate_calls (snd (loadData rc re w)) = generate_calls w"
proof -
  let ?v = "w\<lparr>app := (app w)\<lparr>currentTheme := t\<rparr>\<rparr>"
  have v: "elements (app ?v) = Some es" "config (app ?v) = Some c"
    using assms by simp_all
  have s: "elements (app (setTheme gen t w)) = Some es"
    "config (app (setTheme gen t w)) = Some c"
    using assms by (simp_all add: setTheme_def render_app)
  have c1: "calls (setTheme gen t w) = calls w @ [Generate es c t (currentLayout (app w))]"
    by (simp add: setTheme_def render_loaded [OF v])
  have k1: "container (setTheme gen t w) =
      map_option (\<lambda>_. gen es c t (currentLayout (app w))) (container w)"
    by (simp add: setTheme_def render_loaded [OF v])
  have a1: "app (setTheme gen t w) = (app w)\<lparr>currentTheme := t\<rparr>"
    by (simp add: setTheme_def render_app)
  have c2: "calls (render gen (setTheme gen t w)) =
           calls w @ [Generate es c t (currentLayout (app w)),
                      Generate es c t (currentLayout (app w))]"
    by (simp add: render_loaded [OF s] c1 a1)
  have k2: "container (render gen (setTheme gen t w)) =
           map_option (\<lambda>_. gen es c t (currentLayout (app w))) (container w)"
    by (simp add: render_loaded [OF s] k1 a1 option.map_comp comp_def)
  have g: "generate_calls (exportSVG w) = generate_calls w"
    "generate_calls (showError m w) = generate_calls w"
    "generate_calls (setupEventListeners w) = generate_calls w"
    by (simp_all add: generate_calls_def exportSVG_simps showError_simps
        setupEventListeners_simps)
  show ?thesis
    using render_loaded [OF assms, of gen] c2 k2 g loadData_generate_calls [of rc re w]
    by simp
qed

text \<open>C2 on the loaded page, with the theme set to dark.\<close>

theorem render_generates_once_witness:
  "elements (app loaded_page) = Some [1, 2, 3] \<and> config (app loaded_page) = Some ()
   \<and> calls (render sample_generate (setTheme sample_generate ''dark'' loaded_page)) =
       [LoadConfig, LoadElements, Generate [1, 2, 3] () ''light'' ''normal'',
        Generate [1, 2, 3] () ''dark'' ''normal'', Generate [1, 2, 3] () ''dark'' ''normal'']
   \<and> container (render sample_generate (setTheme sample_generate ''dark'' loaded_page)) =
       Some ''<svg class=dark normal></svg>''"
  using render_generates_once [of loaded_page "[1, 2, 3]" "()" sample_generate "''dark''"]
  by (simp add: loaded_page_simps sample_generate_def)

subsection \<open>C3: the values setTheme and setLayout accept\<close>

text \<open>
  C3, as stated, fails: a value outside any enumeration of themes is not refused. On the
  loaded page \<^verbatim>\<open>setTheme('no-such-theme')\<close> stores the value in place of \<^verbatim>\<open>'light'\<close> and
  the container shows a table generated with it; \<^verbatim>\<open>setLayout('no-such-layout')\<close> does
  the same to the layout.
\<close>

theorem setTheme_unvalidated_counterexample:
  "currentTheme (app loaded_page) = ''light''
   \<and> currentTheme (app (setTheme sample_generate ''no-such-theme'' loaded_page)) =
        ''no-such-theme''
   \<and> container (setTheme sample_generate ''no-such-theme'' loaded_page) =
        Some (sample_generate [1, 2, 3] () ''no-such-theme'' ''normal'')
   \<and> currentLayout (app loaded_page) = ''normal''
   \<and> currentLayout (app (setLayout sample_generate ''no-such-layout'' loaded_page)) =
        ''no-such-layout''
   \<and> container (setLayout sample_generate ''no-such-layout'' loaded_page) =
        Some (sample_generate [1, 2, 3] () ''light'' ''no-such-layout'')"
proof -
  let ?t = "loaded_page\<lparr>app := (app loaded_page)\<lparr>currentTheme := ''no-such-theme''\<rparr>\<rparr>"
  let ?l = "loaded_page\<lparr>app := (app loaded_page)\<lparr>currentLayout := ''no-such-layout''\<rparr>\<rparr>"
  have t: "elements (app ?t) = Some [1, 2, 3]" "config (app ?t) = Some ()"
    by (simp_all add: loaded_page_simps)
  have l: "elements (app ?l) = Some [1, 2, 3]" "config (app ?l) = Some ()"
    by (simp_all add: loaded_page_simps)
  have ct: "container (setTheme sample_generate ''no-such-theme'' loaded_page) =
        Some (sample_generate [1, 2, 3] () ''no-such-theme'' ''normal'')"
    unfolding setTheme_def using render_loaded(2) [OF t, of sample_generate]
    by (simp add: loaded_page_simps)
  have cl: "container (setLayout sample_generate ''no-such-layout'' loaded_page) =
        Some (sample_generate [1, 2, 3] () ''light'' ''no-such-layout'')"
    unfolding setLayout_def using render_loaded(2) [OF l, of sample_generate]
    by (simp add: loaded_page_simps)
  show ?thesis
    by (simp add: ct cl) (simp add: setTheme_def setLayout_def render_app loaded_page_simps)
qed

text \<open>
  C3, amended. \<^verbatim>\<open>setTheme\<close> checks nothing: for every string \<open>v\<close> it stores \<open>v\<close> as the
  current theme, leaves elements, configuration and layout as they were, and renders.
  \<^verbatim>\<open>setLayout\<close> does the same with the current layout.
\<close>

theorem setTheme_stores_any_value:
  "app (setTheme gen v w) = (app w)\<lparr>currentTheme := v\<rparr>
   \<and> setTheme gen v w = render gen (w\<lparr>app := (app w)\<lparr>currentTheme := v\<rparr>\<rparr>)
   \<and> app (setLayout gen v w) = (app w)\<lparr>currentLayout := v\<rparr>
   \<and> setLayout gen v w = render gen (w\<lparr>app := (app w)\<lparr>currentLayout := v\<rparr>\<rparr>)"
  by (simp add: setTheme_def setLayout_def render_app)

subsection \<open>C4: what init leaves behind\<close>

text \<open>
  C4, as stated, fails. When \<^verbatim>\<open>parser.loadConfig()\<close> resolves and
  \<^verbatim>\<open>parser.loadElements()\<close> rejects, the configuration has been stored and the elements
  are still absent: the load is not all-or-nothing. And an empty list of elements is not a
  failure: it is stored and rendered.
\<close>

theorem init_partial_load_counterexample:
  "config (app page_load) = None
   \<and> config (app (init sample_generate (Resolved ()) (Rejected (Reason (Some ''HTTP 404'')))
         page_load)) = Some ()
   \<and> elements (app (init sample_generate (Resolved ()) (Rejected (Reason (Some ''HTTP 404'')))
         page_load)) = None
   \<and> calls (init sample_generate (Resolved ()) (Resolved []) page_load) =
       [LoadConfig, LoadElements, Generate [] () ''light'' ''normal'']"
  by (simp add: init_elements_rejected init_resolved page_load_def constructor_def)

text \<open>
  C4, amended. If \<^verbatim>\<open>parser.loadConfig()\<close> rejects, the object is left as it was and
  \<^verbatim>\<open>parser.loadElements()\<close> is not called. If it resolves and \<^verbatim>\<open>parser.loadElements()\<close>
  rejects, the configuration is stored and the rest of the object is left as it was. In both
  cases \<^verbatim>\<open>renderer.generate\<close> is not called and no error is returned. When the reason of
  the rejection is a value other than \<^verbatim>\<open>undefined\<close> and \<^verbatim>\<open>null\<close>, the container, if
  the page has one, receives the error markup with the reason's message, or with
  \<^verbatim>\<open>Initialization failed\<close> when the message is missing or empty. If both promises
  resolve, whatever the length of the list, configuration and elements are stored and
  \<^verbatim>\<open>renderer.generate\<close> is called exactly once, its result written to the container.
\<close>

theorem init_outcomes:
  "(let markup = (\<lambda>message.
          [CHR 0x0A] @ ''      <div class='' @ [CHR 0x22] @ ''error-message'' @ [CHR 0x22]
          @ ''>'' @ [CHR 0x0A] @ ''        <strong>Error:</strong> '' @ message
          @ [CHR 0x0A] @ ''      </div>'' @ [CHR 0x0A] @ ''    '')
    in app (init gen (Rejected err) re w) = app w
     \<and> calls (init gen (Rejected err) re w) = calls w @ [LoadConfig]
     \<and> container (init gen (Rejected (Reason (Some (x # xs)))) re w) =
         map_option (\<lambda>_. markup (x # xs)) (container w)
     \<and> container (init gen (Rejected (Reason (Some []))) re w) =
         map_option (\<lambda>_. markup ''Initialization failed'') (container w)
     \<and> container (init gen (Rejected (Reason None)) re w) =
         map_option (\<lambda>_. markup ''Initialization failed'') (container w)
     \<and> app (init gen (Resolved c) (Rejected err) w) = (app w)\<lparr>config := Some c\<rparr>
     \<and> calls (init gen (Resolved c) (Rejected err) w) = calls w @ [LoadConfig, LoadElements]
     \<and> container (init gen (Resolved c) (Rejected (Reason (Some (x # xs)))) w) =
         map_option (\<lambda>_. markup (x # xs)) (container w)
     \<and> container (init gen (Resolved c) (Rejected (Reason (Some []))) w) =
         map_option (\<lambda>_. markup ''Initialization failed'') (container w)
     \<and> container (init gen (Resolved c) (Rejected (Reason None)) w) =
         map_option (\<lambda>_. markup ''Initialization failed'') (container w)
     \<and> app (init gen (Resolved c) (Resolved es) w) =
         (app w)\<lparr>config := Some c, elements := Some es\<rparr>
     \<and> calls (init gen (Resolved c) (Resolved es) w) =
         calls w @ [LoadConfig, LoadElements,
                    Generate es c (currentTheme (app w)) (currentLayout (app w))]
     \<and> container (init gen (Resolved c) (Resolved es) w) =
         map_option (\<lambda>_. gen es c (currentTheme (app w)) (currentLayout (app w)))
           (container w))"
  unfolding Let_def
  by (simp add: init_config_rejected init_elements_rejected init_resolved
      error_markup_def message_or_default_def newline_def dquote_def)

subsection \<open>C5: the name of the exported file\<close>

text \<open>
  C5, as stated, fails in its scenario: with theme \<^verbatim>\<open>light\<close> and layout \<^verbatim>\<open>compact\<close> the
  file is \<^verbatim>\<open>elementsfactory-light-compact.svg\<close>, not \<^verbatim>\<open>table-light-compact.svg\<close>.
\<close>

theorem export_filename_counterexample:
  "currentTheme (app compact_page) = ''light''
   \<and> currentLayout (app compact_page) = ''compact''
   \<and> last (calls (exportSVG compact_page)) = DownloadSVG ''elementsfactory-light-compact.svg''
   \<and> last (calls (exportSVG compact_page)) \<noteq> DownloadSVG ''table-light-compact.svg''"
  by (simp add: exportSVG_simps compact_page_simps export_filename_def)

text \<open>
  C5, amended. Every \<^verbatim>\<open>exportSVG()\<close> hands \<^verbatim>\<open>renderer.downloadSVG\<close> the name
  \<^verbatim>\<open>elementsfactory-<theme>-<layout>.svg\<close> for the theme and layout in effect; with
  \<^verbatim>\<open>light\<close> and \<^verbatim>\<open>compact\<close> that is \<^verbatim>\<open>elementsfactory-light-compact.svg\<close>.
\<close>

theorem exportSVG_filename:
  "calls (exportSVG w) =
     calls w @ [DownloadSVG (''elementsfactory-'' @ currentTheme (app w) @ ''-''
                             @ currentLayout (app w) @ ''.svg'')]
   \<and> export_filename ''light'' ''compact'' = ''elementsfactory-light-compact.svg''"
  by (simp add: exportSVG_simps export_filename_def)

subsection \<open>C6: exporting before anything was rendered\<close>

text \<open>
  C6, as stated, fails: on the fresh page, where no call has been made and so nothing was
  ever rendered, \<^verbatim>\<open>exportSVG()\<close> calls \<^verbatim>\<open>renderer.downloadSVG\<close> all the same and shows no
  error.
\<close>

theorem export_before_render_counterexample:
  "calls page_load = []
   \<and> calls (exportSVG page_load) = [DownloadSVG ''elementsfactory-light-normal.svg'']
   \<and> container (exportSVG page_load) = container page_load"
  by (simp add: exportSVG_simps export_filename_def page_load_def constructor_def)

text \<open>
  C6, amended. \<^verbatim>\<open>exportSVG()\<close> has no precondition: in every state, whether or not a
  render has succeeded, it calls \<^verbatim>\<open>renderer.downloadSVG\<close> once with the derived name, logs
  the export and leaves the container, where an error would be shown, as it was.
\<close>

theorem exportSVG_unguarded:
  "calls (exportSVG w) =
     calls w @ [DownloadSVG (export_filename (currentTheme (app w)) (currentLayout (app w)))]
   \<and> console (exportSVG w) =
     console w @ [Log_exported (export_filename (currentTheme (app w)) (currentLayout (app w)))]
   \<and> container (exportSVG w) = container w"
  by (simp add: exportSVG_def Let_def console_log_simps invoke_simps)

subsection \<open>C7: setting the theme that is already set\<close>

text \<open>
  C7. With data loaded and the current theme \<open>t\<close>, \<^verbatim>\<open>setTheme(t)\<close> leaves the object as
  it was and still renders: each call adds one call of \<^verbatim>\<open>renderer.generate\<close> with the
  same arguments, two calls add two, and the container holds the same document after the
  second call as after the first.
\<close>

theorem setTheme_current_theme_rerenders:
  assumes "elements (app w) = Some es" and "config (app w) = Some c"
    and "currentTheme (app w) = t"
  shows "app (setTheme gen t w) = app w
    \<and> calls (setTheme gen t w) = calls w @ [Generate es c t (currentLayout (app w))]
    \<and> calls (setTheme gen t (setTheme gen t w)) =
         calls w @ [Generate es c t (currentLayout (app w)),
                    Generate es c t (currentLayout (app w))]
    \<and> container (setTheme gen t w) =
         map_option (\<lambda>_. gen es c t (currentLayout (app w))) (container w)
    \<and> container (setTheme gen t (setTheme gen t w)) = container (setTheme gen t w)"
proof -
  have st: "setTheme gen t v = render gen v"
    if "currentTheme (app v) = t" for v :: "('a, 'b) world"
  proof -
    have "v\<lparr>app := (app v)\<lparr>currentTheme := t\<rparr>\<rparr> = v" using that by simp
    then show ?thesis by (simp add: setTheme_def)
  qed
  have r1: "setTheme gen t w = render gen w"
    by (rule st [OF assms(3)])
  have l1: "elements (app (render gen w)) = Some es" "config (app (render gen w)) = Some c"
    "currentTheme (app (render gen w)) = t"
    using assms by (simp_all add: render_app)
  have r2: "setTheme gen t (render gen w) = render gen (render gen w)"
    by (rule st [OF l1(3)])
  show ?thesis
    using assms
    by (simp add: r1 r2 render_loaded [OF l1(1,2)] render_loaded [OF assms(1,2)] render_app
        option.map_comp comp_def)
qed

text \<open>C7 on the loaded page, whose theme is \<^verbatim>\<open>light\<close>.\<close>

theorem setTheme_current_theme_rerenders_witness:
  "elements (app loaded_page) = Some [1, 2, 3] \<and> config (app loaded_page) = Some ()
   \<and> currentTheme (app loaded_page) = ''light''
   \<and> calls (setTheme sample_generate ''light'' (setTheme sample_generate ''light'' loaded_page)) =
       [LoadConfig, LoadElements, Generate [1, 2, 3] () ''light'' ''normal'',
        Generate [1, 2, 3] () ''light'' ''normal'', Generate [1, 2, 3] () ''light'' ''normal'']
   \<and> container (setTheme sample_generate ''light'' (setTheme sample_generate ''light'' loaded_page)) =
       container (setTheme sample_generate ''light'' loaded_page)"
  using setTheme_current_theme_rerenders
          [of loaded_page "[1, 2, 3]" "()" "''light''" sample_generate]
  by (simp add: loaded_page_simps)

subsection \<open>C8: a second init while the first is suspended\<close>

text \<open>
  C8, as stated, fails: a second \<^verbatim>\<open>init()\<close> begun while the first waits for
  \<^verbatim>\<open>parser.loadConfig()\<close> is not refused, it calls \<^verbatim>\<open>parser.loadConfig()\<close> itself. With
  the first call then run to its end and the second after it, the data is loaded twice,
  the table is generated twice and the theme selector has two listeners.
\<close>

theorem init_reentrant_counterexample:
  "calls (init_begin (init_begin page_load)) = [LoadConfig, LoadConfig]
   \<and> calls (init_elements_settled sample_generate (Resolved [1, 2, 3])
         (init_config_settled (Resolved ())
           (init_elements_settled sample_generate (Resolved [1, 2, 3])
             (init_config_settled (Resolved ())
               (init_begin (init_begin page_load)))))) =
       [LoadConfig, LoadConfig, LoadElements, Generate [1, 2, 3] () ''light'' ''normal'',
        LoadElements, Generate [1, 2, 3] () ''light'' ''normal'']
   \<and> themeListeners (init_elements_settled sample_generate (Resolved [1, 2, 3])
         (init_config_settled (Resolved ())
           (init_elements_settled sample_generate (Resolved [1, 2, 3])
             (init_config_settled (Resolved ())
               (init_begin (init_begin page_load)))))) = 2"
  by (simp add: init_begin_def init_config_settled_def init_elements_settled_def render_def
        setupEventListeners_def setupElementInteractivity_def console_log_def invoke_def
        page_load_def constructor_def Let_def)

text \<open>
  C8, amended. \<^verbatim>\<open>init()\<close> keeps no record of a call in progress and refuses none: in
  every state its first part leaves the object as it was and calls
  \<^verbatim>\<open>parser.loadConfig()\<close>, so two calls begun one after the other make two such calls, and
  each goes on to its own \<^verbatim>\<open>parser.loadElements()\<close>. (The last conjunct ties the parts
  to \<open>init\<close>: run without anything in between, they are \<open>init\<close>.)
\<close>

theorem init_begin_unguarded:
  "app (init_begin w) = app w
   \<and> calls (init_begin w) = calls w @ [LoadConfig]
   \<and> calls (init_begin (init_begin w)) = calls w @ [LoadConfig, LoadConfig]
   \<and> calls (init_config_settled (Resolved c2)
              (init_config_settled (Resolved c1) (init_begin (init_begin w)))) =
       calls w @ [LoadConfig, LoadConfig, LoadElements, LoadElements]
   \<and> init gen rc re w =
       (case rc of
          Rejected err \<Rightarrow> init_config_settled rc (init_begin w)
        | Resolved c \<Rightarrow> init_elements_settled gen re (init_config_settled rc (init_begin w)))"
  by (simp add: init_begin_simps init_config_settled_def invoke_simps init_steps)

subsection \<open>C9: the defaults of the constructor\<close>

text \<open>
  C9. The constructor sets the theme to \<^verbatim>\<open>'light'\<close> and the layout to \<^verbatim>\<open>'normal'\<close>, with
  elements and configuration absent; \<^verbatim>\<open>init()\<close> writes neither theme nor layout, whatever
  the two loads settle to, so the defaults do not depend on a load that succeeds.
\<close>

theorem constructor_defaults:
  "currentTheme constructor = ''light''
   \<and> currentLayout constructor = ''normal''
   \<and> elements constructor = None
   \<and> config constructor = None
   \<and> currentTheme (app (init gen rc re w)) = currentTheme (app w)
   \<and> currentLayout (app (init gen rc re w)) = currentLayout (app w)"
proof -
  have "currentTheme (app (init gen rc re w)) = currentTheme (app w)
      \<and> currentLayout (app (init gen rc re w)) = currentLayout (app w)"
    by (cases rc; cases re)
      (simp_all add: init_config_rejected init_elements_rejected init_resolved)
  then show ?thesis by (simp add: constructor_def)
qed

subsection \<open>C10: what exportSVG leaves alone\<close>

text \<open>
  C10. Exporting changes nothing in the object: after \<^verbatim>\<open>exportSVG()\<close> the stored elements,
  configuration, theme and layout are what they were before the call, in every state.
\<close>

theorem exportSVG_frame:
  "elements (app (exportSVG w)) = elements (app w)
   \<and> config (app (exportSVG w)) = config (app w)
   \<and> currentTheme (app (exportSVG w)) = currentTheme (app w)
   \<and> currentLayout (app (exportSVG w)) = currentLayout (app w)"
  by (simp add: exportSVG_simps)

end
